theory Spec2Isabelle
  imports Complex_Main "HOL-Library.AList"
begin

section \<open>Python values, errors and effects\<close>

text \<open>
  The program is a Python script (\<^verbatim>\<open>src/code/main.py\<close>): a book-catalogue scraper
  that fetches pages, extracts one record per title, cleans the records and loads
  them into a file or a database. Every function below is the translation of the
  source function of the same name. A function that can raise returns
  \<open>py_error + 'a\<close> (\<open>Inl\<close> the exception); a function that prints or talks to the
  network also returns the list of effects it performed, in order.
\<close>

datatype py_error =
    NameError string
  | IndexError
  | AttributeError
  | TypeError
  | ValueError
  | KeyError string
  | OverflowError
  | RequestException
  | DatabaseError

text \<open>An HTTP response, as far as the script reads it.\<close>

record response =
  status_code :: int
  text' :: string

text \<open>
  What one call of \<^verbatim>\<open>requests.get(url)\<close> does: it returns a response, raises
  \<^verbatim>\<open>requests.ConnectTimeout\<close>, or raises some other exception of the library.
\<close>

datatype get_outcome =
    Responds response
  | ConnectTimeout
  | OtherFailure

datatype effect =
    HttpGet string
  | Print string

subsection \<open>Formatting a number, as an f-string does\<close>

definition digit_char :: "nat \<Rightarrow> char" where
  "digit_char d = ''0123456789'' ! d"

function str_nat :: "nat \<Rightarrow> string" where
  "str_nat n = (if n < 10 then [digit_char n] else str_nat (n div 10) @ [digit_char (n mod 10)])"
  by pat_completeness auto
termination
  by (relation "measure id") auto

declare str_nat.simps [simp del]

section \<open>The fetch helper\<close>

text \<open>
  \<^verbatim>\<open>get_response(url)\<close> makes up to \<open>n_attempts\<close> requests. The network is the
  parameter \<open>net\<close>: \<open>net a\<close> is what the request of attempt \<open>a\<close> does.

  The script never imports the module \<^verbatim>\<open>time\<close> (its imports are os, re, sys,
  requests, numpy, pandas, bs4 and sqlalchemy), so evaluating \<^verbatim>\<open>time.sleep(60)\<close> in
  the 429 branch raises \<^verbatim>\<open>NameError\<close>, after the message has been printed. The
  handler of the \<^verbatim>\<open>try\<close> catches \<^verbatim>\<open>requests.ConnectTimeout\<close> only, so that
  error leaves the function.
\<close>

definition n_attempts :: nat where
  "n_attempts = 5"

definition too_many_requests_msg :: "nat \<Rightarrow> string" where
  "too_many_requests_msg attempt =
     ''Too many requests on attempt number '' @ str_nat attempt @
     ''. Backing off for 60 seconds...''"

definition no_response_msg :: "string \<Rightarrow> nat \<Rightarrow> string" where
  "no_response_msg url attempt =
     ''No response from '' @ url @ '' on attempt number '' @ str_nat attempt @ ''. Retrying...''"

type_synonym fetched = "response option \<times> int option"

definition after :: "effect list \<Rightarrow> effect list \<times> 'a \<Rightarrow> effect list \<times> 'a" where
  "after es r = (es @ fst r, snd r)"

text \<open>The body of the \<^verbatim>\<open>for attempt in range(1, n_attempts + 1)\<close> loop, over the
  attempts still to make; the empty list is the fall-through to
  \<^verbatim>\<open>return [None, None]\<close>.\<close>

fun attempts :: "string \<Rightarrow> (nat \<Rightarrow> get_outcome) \<Rightarrow> nat list \<Rightarrow> effect list \<times> (py_error + fetched)" where
  "attempts url net [] = ([], Inr (None, None))"
| "attempts url net (attempt # rest) =
     (case net attempt of
        Responds response \<Rightarrow>
          if status_code response = 200 then
            ([HttpGet url], Inr (Some response, Some (status_code response)))
          else if status_code response = 429 then
            ([HttpGet url, Print (too_many_requests_msg attempt)], Inl (NameError ''time''))
          else if attempt < n_attempts then
            after [HttpGet url] (attempts url net rest)
          else if attempt = n_attempts then
            ([HttpGet url], Inr (Some response, Some (status_code response)))
          else
            after [HttpGet url] (attempts url net rest)
      | ConnectTimeout \<Rightarrow>
          after [HttpGet url, Print (no_response_msg url attempt)] (attempts url net rest)
      | OtherFailure \<Rightarrow> ([HttpGet url], Inl RequestException))"

definition get_response :: "string \<Rightarrow> (nat \<Rightarrow> get_outcome) \<Rightarrow> effect list \<times> (py_error + fetched)" where
  "get_response url net = attempts url net [1 ..< n_attempts + 1]"

section \<open>Strings and lists, as Python has them\<close>

text \<open>
  A Python \<^verbatim>\<open>str\<close> is modelled as a \<open>string\<close>: a list of characters with codes
  below 256. The pound sign of the catalogue's prices is the character \<open>0xA3\<close>.
  Among these characters the pattern \<^verbatim>\<open>\d\<close> matches exactly \<open>0\<close> to \<open>9\<close>.
\<close>

definition and_then :: "py_error + 'a \<Rightarrow> ('a \<Rightarrow> py_error + 'b) \<Rightarrow> py_error + 'b" where
  "and_then r f = (case r of Inl e \<Rightarrow> Inl e | Inr x \<Rightarrow> f x)"

text \<open>\<^verbatim>\<open>s.split(c)\<close> for a separator of one character: never the empty list.\<close>

fun split_char :: "char \<Rightarrow> string \<Rightarrow> string list" where
  "split_char c [] = [[]]"
| "split_char c (x # xs) =
     (if x = c then [] # split_char c xs
      else (case split_char c xs of [] \<Rightarrow> [[x]] | p # ps \<Rightarrow> (x # p) # ps))"

text \<open>\<^verbatim>\<open>xs[i]\<close>: position \<open>i\<close> from the front, or \<open>- i\<close> from the back when \<open>i\<close> is
  negative; \<^verbatim>\<open>IndexError\<close> when the list has no such position.\<close>

definition py_index :: "'a list \<Rightarrow> int \<Rightarrow> py_error + 'a" where
  "py_index xs i =
     (if 0 \<le> i \<and> i < int (length xs) then Inr (xs ! nat i)
      else if i < 0 \<and> - int (length xs) \<le> i then Inr (xs ! nat (int (length xs) + i))
      else Inl IndexError)"

definition is_digit :: "char \<Rightarrow> bool" where
  "is_digit c = (48 \<le> (of_char c :: nat) \<and> (of_char c :: nat) \<le> 57)"

definition nat_of_digits :: "string \<Rightarrow> nat" where
  "nat_of_digits ds = foldl (\<lambda>a c. 10 * a + (of_char c - 48)) 0 ds"

subsection \<open>The two patterns of the cleaner\<close>

text \<open>
  \<open>match_decimal s\<close> is the match of \<^verbatim>\<open>\d+\.\d+\<close> that starts at the head of
  \<open>s\<close>, \<open>match_integer s\<close> the match of \<^verbatim>\<open>\d+\<close> there. Both quantifiers are
  greedy; giving digits back never helps the first pattern, since the character
  after a shorter run of digits is a digit and not the dot.
\<close>

definition match_decimal :: "string \<Rightarrow> string option" where
  "match_decimal s =
     (let ds = takeWhile is_digit s in
      if ds = [] then None
      else (case dropWhile is_digit s of
              [] \<Rightarrow> None
            | c # r \<Rightarrow>
                if c = CHR ''.'' \<and> takeWhile is_digit r \<noteq> []
                then Some (ds @ c # takeWhile is_digit r) else None))"

definition match_integer :: "string \<Rightarrow> string option" where
  "match_integer s =
     (let ds = takeWhile is_digit s in if ds = [] then None else Some ds)"

text \<open>
  \<^verbatim>\<open>re.findall\<close>: the matches from left to right, none overlapping. The number is
  how many characters of the last match are still to be passed over.
\<close>

fun findall_from :: "(string \<Rightarrow> string option) \<Rightarrow> nat \<Rightarrow> string \<Rightarrow> string list" where
  "findall_from m k [] = []"
| "findall_from m (Suc k) (c # cs) = findall_from m k cs"
| "findall_from m 0 (c # cs) =
     (case m (c # cs) of
        Some w \<Rightarrow> w # findall_from m (length w - 1) cs
      | None \<Rightarrow> findall_from m 0 cs)"

definition re_findall :: "(string \<Rightarrow> string option) \<Rightarrow> string \<Rightarrow> string list" where
  "re_findall m s = findall_from m 0 s"

subsection \<open>Text to number\<close>

text \<open>
  \<^verbatim>\<open>float(s)\<close> on plain decimal notation, digits with an optional fraction: the
  only texts the cleaner casts to a float are matches of \<^verbatim>\<open>\d+\.\d+\<close>. The result
  stands for the double nearest to the rational; the rounding is not modelled.
  Python's other notations for a float (a sign, an exponent, \<^verbatim>\<open>inf\<close>, blanks
  around the number) never reach this cast and are answered as \<open>ValueError\<close>.
\<close>

definition py_float :: "string \<Rightarrow> py_error + rat" where
  "py_float s =
     (let ip = takeWhile is_digit s in
      if ip = [] then Inl ValueError
      else (case dropWhile is_digit s of
              [] \<Rightarrow> Inr (of_nat (nat_of_digits ip))
            | c # fp \<Rightarrow>
                if c = CHR ''.'' \<and> fp \<noteq> [] \<and> list_all is_digit fp
                then Inr (of_nat (nat_of_digits ip) + of_nat (nat_of_digits fp) / 10 ^ length fp)
                else Inl ValueError))"

text \<open>
  \<^verbatim>\<open>int(s)\<close>: blanks around the number are dropped, a sign may lead, and single
  underscores may stand between digits.
\<close>

definition is_space :: "char \<Rightarrow> bool" where
  "is_space c = (let n = (of_char c :: nat) in
     (9 \<le> n \<and> n \<le> 13) \<or> (28 \<le> n \<and> n \<le> 32) \<or> n = 133 \<or> n = 160)"

definition strip :: "string \<Rightarrow> string" where
  "strip s = rev (dropWhile is_space (rev (dropWhile is_space s)))"

fun grouped_digits :: "string \<Rightarrow> bool" where
  "grouped_digits [] = False"
| "grouped_digits [c] = is_digit c"
| "grouped_digits (c # d # r) =
     (is_digit c \<and> (if d = CHR ''_'' then grouped_digits r else grouped_digits (d # r)))"

definition int_digits :: "string \<Rightarrow> py_error + int" where
  "int_digits s =
     (if grouped_digits s then Inr (int (nat_of_digits (filter is_digit s))) else Inl ValueError)"

definition py_int :: "string \<Rightarrow> py_error + int" where
  "py_int s =
     (case strip s of
        [] \<Rightarrow> Inl ValueError
      | c # r \<Rightarrow>
          if c = CHR ''-'' then and_then (int_digits r) (\<lambda>n. Inr (- n))
          else if c = CHR ''+'' then int_digits r
          else int_digits (c # r))"

section \<open>Data frames\<close>

text \<open>
  A pandas \<^verbatim>\<open>DataFrame\<close> is modelled by its columns, in order: each a name and the
  values of the column, one per row. The row labels are not modelled (the script
  never reads them; \<^verbatim>\<open>reset_index(drop=True)\<close> changes nothing else).

  A cell of a raw record is a Python \<^verbatim>\<open>str\<close>, or \<^verbatim>\<open>NaN\<close> where the record has no
  value for the field. A cell of a cleaned record is such an object, a float or
  a 64-bit integer.
\<close>

datatype cell = Str string | NaN

datatype pyval = VObj cell | VFloat rat | VFloatNaN | VInt int

datatype dtype = Object | Float64 | Int64

type_synonym 'v dataframe = "(string \<times> 'v list) list"

definition df_columns :: "'v dataframe \<Rightarrow> string list" where
  "df_columns df = map fst df"

text \<open>\<^verbatim>\<open>df.shape[0]\<close>\<close>

definition nrows :: "'v dataframe \<Rightarrow> nat" where
  "nrows df = (case df of [] \<Rightarrow> 0 | (name, values) # rest \<Rightarrow> length values)"

text \<open>The records of a frame: row \<open>i\<close> holds the \<open>i\<close>-th value of every column.\<close>

definition df_rows :: "'v dataframe \<Rightarrow> 'v list list" where
  "df_rows df = map (\<lambda>i. map (\<lambda>(name, values). values ! i) df) [0 ..< nrows df]"

text \<open>\<^verbatim>\<open>df[name]\<close>\<close>

definition df_getitem :: "'v dataframe \<Rightarrow> string \<Rightarrow> py_error + 'v list" where
  "df_getitem df name =
     (case map_of df name of None \<Rightarrow> Inl (KeyError name) | Some values \<Rightarrow> Inr values)"

text \<open>\<^verbatim>\<open>df[name] = values\<close>: the column is replaced in place, or added as the last.\<close>

definition df_setitem :: "'v dataframe \<Rightarrow> string \<Rightarrow> 'v list \<Rightarrow> 'v dataframe" where
  "df_setitem df name values = AList.update name values df"

text \<open>\<^verbatim>\<open>series.apply(f)\<close>: \<open>f\<close> on every value in order; the first exception ends it.\<close>

fun series_apply :: "('a \<Rightarrow> py_error + 'b) \<Rightarrow> 'a list \<Rightarrow> py_error + 'b list" where
  "series_apply f [] = Inr []"
| "series_apply f (x # xs) =
     and_then (f x) (\<lambda>y. and_then (series_apply f xs) (\<lambda>ys. Inr (y # ys)))"

text \<open>\<^verbatim>\<open>df[name] = df[name].apply(f)\<close>\<close>

definition apply_column :: "('v \<Rightarrow> py_error + 'v) \<Rightarrow> string \<Rightarrow> 'v dataframe \<Rightarrow> py_error + 'v dataframe" where
  "apply_column f name df =
     and_then (df_getitem df name) (\<lambda>values.
     and_then (series_apply f values) (\<lambda>values'.
     Inr (df_setitem df name values')))"

text \<open>\<^verbatim>\<open>df.columns = names\<close>: the columns are renamed by position.\<close>

definition set_columns :: "'v dataframe \<Rightarrow> string list \<Rightarrow> py_error + 'v dataframe" where
  "set_columns df names =
     (if length names = length df then Inr (zip names (map snd df)) else Inl ValueError)"

text \<open>
  The cast of one value to a dtype, as \<^verbatim>\<open>astype\<close> does it on a column of objects:
  a text goes through \<^verbatim>\<open>float\<close> or \<^verbatim>\<open>int\<close>, \<^verbatim>\<open>NaN\<close> stays \<^verbatim>\<open>NaN\<close> as a float
  and cannot become an integer, and an integer must fit 64 bits.
\<close>

fun cast :: "dtype \<Rightarrow> cell \<Rightarrow> py_error + pyval" where
  "cast Object c = Inr (VObj c)"
| "cast Float64 (Str s) = and_then (py_float s) (\<lambda>q. Inr (VFloat q))"
| "cast Float64 NaN = Inr VFloatNaN"
| "cast Int64 (Str s) =
     and_then (py_int s) (\<lambda>n.
       if - (2 ^ 63) \<le> n \<and> n < 2 ^ 63 then Inr (VInt n) else Inl OverflowError)"
| "cast Int64 NaN = Inl ValueError"

text \<open>
  \<^verbatim>\<open>df.astype(schema)\<close>: every name of the schema must be a column; each column is
  cast to its dtype of the schema, and a column the schema does not name keeps
  its objects.
\<close>

fun astype_columns :: "(string \<times> dtype) list \<Rightarrow> cell dataframe \<Rightarrow> py_error + pyval dataframe" where
  "astype_columns schema [] = Inr []"
| "astype_columns schema ((name, values) # rest) =
     and_then (series_apply (cast (case map_of schema name of None \<Rightarrow> Object | Some t \<Rightarrow> t)) values)
       (\<lambda>values'.
     and_then (astype_columns schema rest) (\<lambda>rest'. Inr ((name, values') # rest')))"

definition astype :: "(string \<times> dtype) list \<Rightarrow> cell dataframe \<Rightarrow> py_error + pyval dataframe" where
  "astype schema df =
     (case filter (\<lambda>name. name \<notin> set (map fst df)) (map fst schema) of
        [] \<Rightarrow> astype_columns schema df
      | name # _ \<Rightarrow> Inl (KeyError name))"

section \<open>The record extractor\<close>

text \<open>
  The HTML parser is a library; what the script reads off a parsed page is the
  parameter \<open>parse\<close>. \<open>description_tags\<close> has an entry for every element found by
  \<^verbatim>\<open>soup.find_all(id="product_description")\<close>, in document order: the value of
  \<^verbatim>\<open>tag.next_sibling.next_sibling.text\<close>, or \<open>None\<close> where that chain of attributes
  does not exist. \<open>td_texts\<close> are the texts of the table cells
  (\<^verbatim>\<open>soup.find_all("td")\<close>), in document order.
\<close>

record soup =
  description_tags :: "string option list"
  td_texts :: "string list"

definition fields' :: "string list" where
  "fields' = [''UPC'', ''Product Type'', ''Price (excl. tax)'', ''Price (incl. tax)'', ''Tax'',
     ''Availability'', ''Number of reviews'']"

definition raw_columns :: "string list" where
  "raw_columns = [''Title''] @ fields' @ [''Product Description'']"

text \<open>\<^verbatim>\<open>url.split("/")[-2].split("_")[0]\<close>\<close>

definition title_of_url :: "string \<Rightarrow> py_error + string" where
  "title_of_url url =
     and_then (py_index (split_char CHR ''/'' url) (- 2)) (\<lambda>segment.
     py_index (split_char CHR ''_'' segment) 0)"

text \<open>
  \<^verbatim>\<open>pd.DataFrame(data, index=[0], columns=columns)\<close>: one row; a column that is no
  key of the dictionary holds \<^verbatim>\<open>NaN\<close>, a key that is no column is left out.
\<close>

definition one_row_frame :: "(string \<rightharpoonup> string) \<Rightarrow> string list \<Rightarrow> cell dataframe" where
  "one_row_frame data columns =
     map (\<lambda>c. (c, [case data c of None \<Rightarrow> NaN | Some v \<Rightarrow> Str v])) columns"

text \<open>\<^verbatim>\<open>pd.DataFrame(columns=columns)\<close>: the columns, and no row.\<close>

definition empty_frame :: "string list \<Rightarrow> cell dataframe" where
  "empty_frame columns = map (\<lambda>c. (c, [])) columns"

definition fetch_title_info ::
  "(string \<Rightarrow> soup) \<Rightarrow> string \<Rightarrow> (nat \<Rightarrow> get_outcome) \<Rightarrow> effect list \<times> (py_error + cell dataframe)" where
  "fetch_title_info parse url net =
     (case get_response url net of
        (es, Inl e) \<Rightarrow> (es, Inl e)
      | (es, Inr (response, status)) \<Rightarrow>
          if status = Some 200 then
            (es,
             and_then (case response of None \<Rightarrow> Inl AttributeError | Some r \<Rightarrow> Inr (parse (text' r)))
               (\<lambda>soup.
             and_then (py_index (description_tags soup) 0) (\<lambda>tag.
             and_then (case tag of None \<Rightarrow> Inl AttributeError | Some d \<Rightarrow> Inr d)
               (\<lambda>product_description.
             let product_info = td_texts soup;
                 data = (map_of (zip fields' product_info))
                          (''Product Description'' \<mapsto> product_description)
             in and_then (title_of_url url) (\<lambda>title.
                  Inr (one_row_frame (data(''Title'' \<mapsto> title)) raw_columns))))))
          else
            (es @ [Print ''Bad status code. Cannot fetch data.''], Inr (empty_frame raw_columns)))"

text \<open>
  The address of an item's page, in the words of the docstring:
  \<^verbatim>\<open>http://books.toscrape.com/catalogue/<book_title>_<book_id>/index.html\<close>.
\<close>

definition item_url :: "string \<Rightarrow> string \<Rightarrow> string" where
  "item_url book_title book_id =
     ''http://books.toscrape.com/catalogue/'' @ book_title @ ''_'' @ book_id @ ''/index.html''"

section \<open>The cleaner\<close>

text \<open>
  Both converters return the matched text (their annotations promise a number);
  the cast to a number is \<open>astype\<close>'s. \<^verbatim>\<open>re.findall\<close> raises \<^verbatim>\<open>TypeError\<close> on a
  value that is not a string, and \<^verbatim>\<open>[0]\<close> raises \<^verbatim>\<open>IndexError\<close> when nothing matched.
\<close>

definition convert_price :: "cell \<Rightarrow> py_error + cell" where
  "convert_price price =
     (case price of
        NaN \<Rightarrow> Inl TypeError
      | Str s \<Rightarrow> and_then (py_index (re_findall match_decimal s) 0) (\<lambda>w. Inr (Str w)))"

definition convert_availability :: "cell \<Rightarrow> py_error + cell" where
  "convert_availability availability =
     (case availability of
        NaN \<Rightarrow> Inl TypeError
      | Str s \<Rightarrow> and_then (py_index (re_findall match_integer s) 0) (\<lambda>w. Inr (Str w)))"

definition schema :: "(string \<times> dtype) list" where
  "schema =
     [(''title'', Object), (''upc'', Object), (''product_type'', Object),
      (''price_excl_tax'', Float64), (''price_incl_tax'', Float64), (''tax'', Float64),
      (''availability'', Int64), (''number_of_reviews'', Int64),
      (''product_description'', Object)]"

definition clean_data :: "cell dataframe \<Rightarrow> py_error + pyval dataframe" where
  "clean_data df0 =
     and_then (apply_column convert_availability ''Availability'' df0) (\<lambda>df1.
     and_then (apply_column convert_price ''Price (excl. tax)'' df1) (\<lambda>df2.
     and_then (apply_column convert_price ''Price (incl. tax)'' df2) (\<lambda>df3.
     and_then (apply_column convert_price ''Tax'' df3) (\<lambda>df4.
     and_then (set_columns df4 (map fst schema)) (\<lambda>df5.
     astype schema df5)))))"

text \<open>\<^verbatim>\<open>df["category"] = label\<close> of the driver: the label in every row.\<close>

definition stamp_category :: "pyval dataframe \<Rightarrow> string \<Rightarrow> pyval dataframe" where
  "stamp_category df label = df_setitem df ''category'' (replicate (nrows df) (VObj (Str label)))"

section \<open>The loader\<close>

text \<open>
  The world the loader writes to: the file \<^verbatim>\<open>data.csv\<close> of the working directory
  (\<open>None\<close> while it does not exist, else its records in order) and the database.
  A record of the file is the header, with the column names, or a data row. How
  a value is written as text is not modelled, and writing the file never fails.
  The database is the parameter \<open>to_sql\<close>: given the connection string, the table
  and the frame it changes the database, and may raise.
\<close>

datatype csv_record = Header "string list" | Row "pyval list"

record 'db world =
  data_csv :: "csv_record list option"
  db_state :: 'db

definition uploaded_msg :: "pyval dataframe \<Rightarrow> string" where
  "uploaded_msg df = ''Succesfully Uploaded '' @ str_nat (nrows df) @ '' Records.''"

definition load_data ::
  "string list \<Rightarrow> (string \<Rightarrow> string \<Rightarrow> pyval dataframe \<Rightarrow> 'db \<Rightarrow> py_error option \<times> 'db) \<Rightarrow>
   'db world \<Rightarrow> pyval dataframe \<Rightarrow> string \<Rightarrow> string \<Rightarrow> string \<Rightarrow> string \<Rightarrow> string \<Rightarrow>
   effect list \<times> py_error option \<times> 'db world" where
  "load_data argv to_sql w df user password host database table =
     (if ''--no_db'' \<in> set argv then
        (case data_csv w of
           None \<Rightarrow>
             ([Print (uploaded_msg df)], None,
              w\<lparr>data_csv := Some (Header (df_columns df) # map Row (df_rows df))\<rparr>)
         | Some records \<Rightarrow>
             ([Print (uploaded_msg df)], None,
              w\<lparr>data_csv := Some (records @ map Row (df_rows df))\<rparr>))
      else
        (let connection_string =
               ''mysql+pymysql://'' @ user @ '':'' @ password @ ''@'' @ host @ ''/'' @ database
         in case to_sql connection_string table df (db_state w) of
              (Some e, db) \<Rightarrow> ([Print ''Failed to Load Data.''], Some e, w\<lparr>db_state := db\<rparr>)
            | (None, db) \<Rightarrow> ([Print (uploaded_msg df)], None, w\<lparr>db_state := db\<rparr>)))"

section \<open>Notions the properties are stated with\<close>

text \<open>
  What the cleaner does to one cell of a price-like column, and to one cell of
  the availability column: the converter, then the cast of the schema.
\<close>

definition clean_price :: "cell \<Rightarrow> py_error + pyval" where
  "clean_price c = and_then (convert_price c) (cast Float64)"

definition clean_availability :: "cell \<Rightarrow> py_error + pyval" where
  "clean_availability c = and_then (convert_availability c) (cast Int64)"

text \<open>
  A cell holds no number for a pattern: it is a text in which the pattern matches
  nowhere, or it is no text at all.
\<close>

definition no_number :: "(string \<Rightarrow> string option) \<Rightarrow> cell \<Rightarrow> bool" where
  "no_number m c = (case c of NaN \<Rightarrow> True | Str s \<Rightarrow> re_findall m s = [])"

text \<open>A frame of pandas is rectangular: every column has a value for every row.\<close>

definition rectangular :: "'v dataframe \<Rightarrow> bool" where
  "rectangular df = list_all (\<lambda>column. length (snd column) = nrows df) df"

definition in_int64 :: "int \<Rightarrow> bool" where
  "in_int64 n = (- (2 ^ 63) \<le> n \<and> n < 2 ^ 63)"

text \<open>Counting the records of the file.\<close>

definition is_header :: "csv_record \<Rightarrow> bool" where
  "is_header r = (case r of Header names \<Rightarrow> True | Row vs \<Rightarrow> False)"

definition count_headers :: "csv_record list \<Rightarrow> nat" where
  "count_headers file = length (filter is_header file)"

definition count_rows :: "csv_record list \<Rightarrow> nat" where
  "count_rows file = length (filter (\<lambda>r. \<not> is_header r) file)"

subsection \<open>Example data\<close>

text \<open>A raw record as the extractor builds it for the first book of the catalogue,
  the record the cleaner makes of it, and a raw record whose tax has no number.\<close>

definition example_frame :: "cell dataframe" where
  "example_frame =
     [(''Title'', [Str ''a-light-in-the-attic'']), (''UPC'', [Str ''a897fe39b1053632'']),
      (''Product Type'', [Str ''Books'']), (''Price (excl. tax)'', [Str (CHR 0xA3 # ''51.77'')]),
      (''Price (incl. tax)'', [Str (CHR 0xA3 # ''51.77'')]), (''Tax'', [Str (CHR 0xA3 # ''0.00'')]),
      (''Availability'', [Str ''In stock (19 available)'']), (''Number of reviews'', [Str ''0'']),
      (''Product Description'', [Str ''Poems.''])]"

definition example_clean :: "pyval dataframe" where
  "example_clean =
     [(''title'', [VObj (Str ''a-light-in-the-attic'')]), (''upc'', [VObj (Str ''a897fe39b1053632'')]),
      (''product_type'', [VObj (Str ''Books'')]), (''price_excl_tax'', [VFloat (5177 / 100)]),
      (''price_incl_tax'', [VFloat (5177 / 100)]), (''tax'', [VFloat 0]),
      (''availability'', [VInt 19]), (''number_of_reviews'', [VInt 0]),
      (''product_description'', [VObj (Str ''Poems.'')])]"

definition tax_free_frame :: "cell dataframe" where
  "tax_free_frame =
     [(''Title'', [Str ''a-light-in-the-attic'']), (''UPC'', [Str ''a897fe39b1053632'']),
      (''Product Type'', [Str ''Books'']), (''Price (excl. tax)'', [Str (CHR 0xA3 # ''51.77'')]),
      (''Price (incl. tax)'', [Str (CHR 0xA3 # ''51.77'')]), (''Tax'', [Str ''free'']),
      (''Availability'', [Str ''In stock (19 available)'']), (''Number of reviews'', [Str ''0'']),
      (''Product Description'', [Str ''Poems.''])]"

text \<open>A page with one cell more than the seven fields, and a page with two cells.\<close>

definition long_page :: soup where
  "long_page = \<lparr>description_tags = [Some ''Poems.''],
     td_texts = [''a897fe39b1053632'', ''Books'', CHR 0xA3 # ''51.77'', CHR 0xA3 # ''51.77'',
       CHR 0xA3 # ''0.00'', ''In stock (19 available)'', ''0'', ''surplus'']\<rparr>"


definition ok_response :: response where
  "ok_response = \<lparr>status_code = 200, text' = ''<html>''\<rparr>"

text \<open>The invocation in file mode, a world without the file, and a database that
  refuses every write.\<close>

definition file_mode_argv :: "string list" where
  "file_mode_argv = [''main.py'', ''--no_db'']"

definition fresh_world :: "unit world" where
  "fresh_world = \<lparr>data_csv = None, db_state = ()\<rparr>"

definition refusing_db :: "string \<Rightarrow> string \<Rightarrow> pyval dataframe \<Rightarrow> unit \<Rightarrow> py_error option \<times> unit" where
  "refusing_db connection_string table df db = (Some DatabaseError, db)"

section \<open>Properties of the fetch helper\<close>

lemma attempt_range: "[1 ..< n_attempts + 1] = [1, 2, 3, 4, 5]"
  by (simp add: n_attempts_def upt_rec)

lemma str_nat_digit: "n < 10 \<Longrightarrow> str_nat n = [digit_char n]"
  by (simp add: str_nat.simps)

lemma get_response_ok:
  assumes "net 1 = Responds r" and "status_code r = 200"
  shows "get_response url net = ([HttpGet url], Inr (Some r, Some 200))"
  unfolding get_response_def attempt_range using assms by simp

text \<open>
  Whatever the later attempts would do, a first answer of status 429 ends the
  call: one request, the message, and the \<^verbatim>\<open>NameError\<close> of the unbound name
  \<^verbatim>\<open>time\<close>.
\<close>

lemma get_response_429_first:
  assumes "net 1 = Responds r" and "status_code r = 429"
  shows "get_response url net =
    ([HttpGet url, Print (too_many_requests_msg 1)], Inl (NameError ''time''))"
  unfolding get_response_def attempt_range using assms by simp

text \<open>
  Claim C1 (a server that answers 429 on every attempt: the helper pauses 60
  seconds after each answer, retries up to the cap of 5 attempts and returns the
  last response with its status code). The code does not: at the first 429
  answer it prints its message and raises \<^verbatim>\<open>NameError\<close>, since \<^verbatim>\<open>time\<close> is not
  imported. It makes one request, never pauses and returns nothing.
\<close>

theorem get_response_always_429_raises:
  "get_response ''http://books.toscrape.com/catalogue/category/books/science_22''
     (\<lambda>attempt. Responds \<lparr>status_code = 429, text' = ''Too Many Requests''\<rparr>) =
   ([HttpGet ''http://books.toscrape.com/catalogue/category/books/science_22'',
     Print ''Too many requests on attempt number 1. Backing off for 60 seconds...''],
    Inl (NameError ''time''))"
  unfolding get_response_def attempt_range
  by (simp add: too_many_requests_msg_def str_nat_digit digit_char_def)

text \<open>
  Claim C2: when the first request is answered with status 200, \<open>get_response\<close>
  returns that response and the status 200, and the one request is all it did:
  no second request, no message, no pause.
\<close>

theorem get_response_200_first_attempt:
  assumes "net 1 = Responds r" and "status_code r = 200"
  shows "get_response url net = ([HttpGet url], Inr (Some r, Some 200))"
  unfolding get_response_def attempt_range using assms by simp

theorem get_response_200_first_attempt_witness:
  "get_response ''http://books.toscrape.com/index.html''
     (\<lambda>attempt. if attempt = 1 then Responds \<lparr>status_code = 200, text' = ''<html></html>''\<rparr>
                 else ConnectTimeout) =
   ([HttpGet ''http://books.toscrape.com/index.html''],
    Inr (Some \<lparr>status_code = 200, text' = ''<html></html>''\<rparr>, Some 200))"
  using get_response_200_first_attempt
    [of "\<lambda>attempt. if attempt = 1 then Responds \<lparr>status_code = 200, text' = ''<html></html>''\<rparr>
                     else ConnectTimeout"
        "\<lparr>status_code = 200, text' = ''<html></html>''\<rparr>"
        "''http://books.toscrape.com/index.html''"]
  by simp



section \<open>Basic facts\<close>

lemma and_then_Inr_iff: "and_then r f = Inr y \<longleftrightarrow> (\<exists>x. r = Inr x \<and> f x = Inr y)"
  by (cases r) (simp_all add: and_then_def)

lemma and_then_Inr: "and_then (Inr x) f = f x"
  by (simp add: and_then_def)

lemma and_then_assoc: "and_then (and_then r f) g = and_then r (\<lambda>x. and_then (f x) g)"
  by (cases r) (simp_all add: and_then_def)

lemma not_Inr_is_Inl: "(\<And>y. r \<noteq> Inr y) \<Longrightarrow> \<exists>e. r = Inl e"
  by (cases r) auto

lemma series_apply_Inr_iff:
  "series_apply f xs = Inr ys \<longleftrightarrow> list_all2 (\<lambda>x y. f x = Inr y) xs ys"
proof (induction xs arbitrary: ys)
  case Nil
  show ?case by auto
next
  case (Cons x xs)
  show ?case by (cases ys) (auto simp: and_then_Inr_iff Cons.IH)
qed

lemma series_apply_fails:
  assumes "x \<in> set xs" and "f x = Inl e"
  shows "\<exists>e'. series_apply f xs = Inl e'"
proof (cases "series_apply f xs")
  case (Inl a)
  then show ?thesis by simp
next
  case (Inr ys)
  then have "list_all2 (\<lambda>x y. f x = Inr y) xs ys"
    by (simp add: series_apply_Inr_iff)
  then obtain y where "f x = Inr y"
    using assms(1) by (auto simp: in_set_conv_nth list_all2_conv_all_nth)
  then show ?thesis using assms(2) by simp
qed

lemma series_apply_twice:
  assumes "series_apply f xs = Inr ys" and "series_apply g ys = Inr zs"
  shows "list_all2 (\<lambda>x z. and_then (f x) g = Inr z) xs zs"
proof -
  have "list_all2 (\<lambda>x y. f x = Inr y) xs ys" and "list_all2 (\<lambda>y z. g y = Inr z) ys zs"
    using assms by (simp_all add: series_apply_Inr_iff)
  then show ?thesis
    by (auto simp: list_all2_conv_all_nth and_then_Inr)
qed

lemma series_apply_Object: "series_apply (cast Object) xs = Inr ys \<longleftrightarrow> ys = map VObj xs"
  by (induction xs arbitrary: ys) (auto simp: and_then_Inr_iff)

lemma length_df_rows: "length (df_rows df) = nrows df"
  by (simp add: df_rows_def)

section \<open>Properties of the record extractor\<close>




text \<open>
  Claim C4 (for an address \<^verbatim>\<open>.../catalogue/<book_title>_<book_id>/index.html\<close> whose
  page answers 200, the Title of the record is the segment without its
  \<^verbatim>\<open>_<book_id>\<close> suffix, that is \<^verbatim>\<open><book_title>\<close>). The code keeps the text before
  the first underscore of the segment: for the book title \<open>a_b\<close> with the
  identifier \<open>1\<close> the Title of the record is \<open>a\<close>, not \<open>a_b\<close>.
\<close>

theorem fetch_title_info_underscore_title:
  "and_then
     (snd (fetch_title_info (\<lambda>html. long_page) (item_url ''a_b'' ''1'')
        (\<lambda>attempt. Responds ok_response)))
     (\<lambda>df. df_getitem df ''Title'') = Inr [Str ''a'']"
  unfolding fetch_title_info_def
  by (simp add: get_response_ok ok_response_def long_page_def and_then_Inr py_index_def
      title_of_url_def item_url_def raw_columns_def fields'_def one_row_frame_def df_getitem_def)





lemma columns_one_row_frame: "df_columns (one_row_frame data columns) = columns"
  by (simp add: one_row_frame_def df_columns_def comp_def)

text \<open>
  Whatever the page, a frame the extractor returns has the columns of a raw
  record, at most one row and a value in every column: the shape the
  properties of the cleaner ask of their frame.
\<close>

lemma fetch_title_info_frame_shape:
  assumes "fetch_title_info parse url net = (es, Inr df)"
  shows "df_columns df = raw_columns \<and> rectangular df \<and> nrows df \<le> 1"
proof -
  have one: "df_columns (one_row_frame data raw_columns) = raw_columns
      \<and> rectangular (one_row_frame data raw_columns) \<and> nrows (one_row_frame data raw_columns) \<le> 1"
    for data
    by (simp add: columns_one_row_frame)
      (simp add: one_row_frame_def raw_columns_def fields'_def rectangular_def nrows_def)
  have none: "df_columns (empty_frame raw_columns) = raw_columns
      \<and> rectangular (empty_frame raw_columns) \<and> nrows (empty_frame raw_columns) \<le> 1"
    by (simp add: empty_frame_def raw_columns_def fields'_def rectangular_def nrows_def
        df_columns_def)
  from assms consider data where "df = one_row_frame data raw_columns"
    | "df = empty_frame raw_columns"
    by (auto simp: fetch_title_info_def and_then_Inr_iff Let_def
        split: prod.splits sum.splits if_splits)
  then show ?thesis
    using one none by cases simp_all
qed



section \<open>Properties of the cleaner\<close>

lemma raw_frame_shape:
  assumes "df_columns df = raw_columns"
  obtains c0 c1 c2 c3 c4 c5 c6 c7 c8 where
    "df = [(''Title'', c0), (''UPC'', c1), (''Product Type'', c2), (''Price (excl. tax)'', c3),
       (''Price (incl. tax)'', c4), (''Tax'', c5), (''Availability'', c6),
       (''Number of reviews'', c7), (''Product Description'', c8)]"
  using assms unfolding df_columns_def raw_columns_def fields'_def
  by (auto simp: map_eq_Cons_conv)

text \<open>The cleaner on a frame with the columns of a raw record, step by step.\<close>

lemma clean_data_explicit:
  "clean_data [(''Title'', c0), (''UPC'', c1), (''Product Type'', c2), (''Price (excl. tax)'', c3),
       (''Price (incl. tax)'', c4), (''Tax'', c5), (''Availability'', c6),
       (''Number of reviews'', c7), (''Product Description'', c8)] =
   and_then (series_apply convert_availability c6) (\<lambda>a.
   and_then (series_apply convert_price c3) (\<lambda>pe.
   and_then (series_apply convert_price c4) (\<lambda>pi.
   and_then (series_apply convert_price c5) (\<lambda>tx.
   and_then (series_apply (cast Object) c0) (\<lambda>v0.
   and_then (series_apply (cast Object) c1) (\<lambda>v1.
   and_then (series_apply (cast Object) c2) (\<lambda>v2.
   and_then (series_apply (cast Float64) pe) (\<lambda>v3.
   and_then (series_apply (cast Float64) pi) (\<lambda>v4.
   and_then (series_apply (cast Float64) tx) (\<lambda>v5.
   and_then (series_apply (cast Int64) a) (\<lambda>v6.
   and_then (series_apply (cast Int64) c7) (\<lambda>v7.
   and_then (series_apply (cast Object) c8) (\<lambda>v8.
   Inr [(''title'', v0), (''upc'', v1), (''product_type'', v2), (''price_excl_tax'', v3),
        (''price_incl_tax'', v4), (''tax'', v5), (''availability'', v6),
        (''number_of_reviews'', v7), (''product_description'', v8)])))))))))))))"
  by (simp add: clean_data_def apply_column_def df_getitem_def df_setitem_def set_columns_def
      schema_def astype_def and_then_assoc and_then_Inr)

lemma clean_data_success:
  assumes "clean_data [(''Title'', c0), (''UPC'', c1), (''Product Type'', c2),
       (''Price (excl. tax)'', c3), (''Price (incl. tax)'', c4), (''Tax'', c5),
       (''Availability'', c6), (''Number of reviews'', c7), (''Product Description'', c8)] = Inr df'"
  obtains v3 v4 v5 v6 v7 where
    "df' = [(''title'', map VObj c0), (''upc'', map VObj c1), (''product_type'', map VObj c2),
       (''price_excl_tax'', v3), (''price_incl_tax'', v4), (''tax'', v5), (''availability'', v6),
       (''number_of_reviews'', v7), (''product_description'', map VObj c8)]"
    and "list_all2 (\<lambda>c v. clean_price c = Inr v) c3 v3"
    and "list_all2 (\<lambda>c v. clean_price c = Inr v) c4 v4"
    and "list_all2 (\<lambda>c v. clean_price c = Inr v) c5 v5"
    and "list_all2 (\<lambda>c v. clean_availability c = Inr v) c6 v6"
    and "list_all2 (\<lambda>c v. cast Int64 c = Inr v) c7 v7"
proof -
  from assms obtain a pe pi tx v0 v1 v2 v3 v4 v5 v6 v7 v8 where
    s: "series_apply convert_availability c6 = Inr a"
       "series_apply convert_price c3 = Inr pe"
       "series_apply convert_price c4 = Inr pi"
       "series_apply convert_price c5 = Inr tx"
       "series_apply (cast Object) c0 = Inr v0"
       "series_apply (cast Object) c1 = Inr v1"
       "series_apply (cast Object) c2 = Inr v2"
       "series_apply (cast Float64) pe = Inr v3"
       "series_apply (cast Float64) pi = Inr v4"
       "series_apply (cast Float64) tx = Inr v5"
       "series_apply (cast Int64) a = Inr v6"
       "series_apply (cast Int64) c7 = Inr v7"
       "series_apply (cast Object) c8 = Inr v8"
    and df': "df' = [(''title'', v0), (''upc'', v1), (''product_type'', v2), (''price_excl_tax'', v3),
        (''price_incl_tax'', v4), (''tax'', v5), (''availability'', v6),
        (''number_of_reviews'', v7), (''product_description'', v8)]"
    unfolding clean_data_explicit and_then_Inr_iff by blast
  show ?thesis
  proof (rule that [of v3 v4 v5 v6 v7])
    show "df' = [(''title'', map VObj c0), (''upc'', map VObj c1), (''product_type'', map VObj c2),
       (''price_excl_tax'', v3), (''price_incl_tax'', v4), (''tax'', v5), (''availability'', v6),
       (''number_of_reviews'', v7), (''product_description'', map VObj c8)]"
      using s(5,6,7,13) df' by (simp add: series_apply_Object)
    show "list_all2 (\<lambda>c v. clean_price c = Inr v) c3 v3"
      unfolding clean_price_def using s(2,8) by (rule series_apply_twice)
    show "list_all2 (\<lambda>c v. clean_price c = Inr v) c4 v4"
      unfolding clean_price_def using s(3,9) by (rule series_apply_twice)
    show "list_all2 (\<lambda>c v. clean_price c = Inr v) c5 v5"
      unfolding clean_price_def using s(4,10) by (rule series_apply_twice)
    show "list_all2 (\<lambda>c v. clean_availability c = Inr v) c6 v6"
      unfolding clean_availability_def using s(1,11) by (rule series_apply_twice)
    show "list_all2 (\<lambda>c v. cast Int64 c = Inr v) c7 v7"
      using s(12) by (simp add: series_apply_Inr_iff)
  qed
qed

text \<open>
  The cast to a float never fails on what \<open>convert_price\<close> returns: a match of
  \<^verbatim>\<open>\d+\.\d+\<close> is digits, a dot and digits, which \<open>py_float\<close> reads.
\<close>

lemma findall_from_matches:
  "w \<in> set (findall_from m k s) \<Longrightarrow> \<exists>s'. m s' = Some w"
  by (induction m k s rule: findall_from.induct) (auto split: option.splits)

lemma takeWhile_dropWhile_digits:
  assumes "list_all is_digit ds" and "\<not> is_digit c"
  shows "takeWhile is_digit (ds @ c # r) = ds" and "dropWhile is_digit (ds @ c # r) = c # r"
  using assms by (induction ds) auto

lemma not_digit_dot: "\<not> is_digit CHR ''.''"
  by (simp add: is_digit_def)

lemma match_decimal_shape:
  assumes "match_decimal s = Some w"
  obtains ds fs where "w = ds @ CHR ''.'' # fs" and "ds \<noteq> []" and "fs \<noteq> []"
    and "list_all is_digit ds" and "list_all is_digit fs"
proof -
  from assms obtain r where
    "takeWhile is_digit s \<noteq> []" "takeWhile is_digit r \<noteq> []"
    "w = takeWhile is_digit s @ CHR ''.'' # takeWhile is_digit r"
    by (auto simp: match_decimal_def Let_def split: if_splits list.splits)
  then show ?thesis
    using that [of "takeWhile is_digit s" "takeWhile is_digit r"]
    by (auto simp: list_all_iff dest: set_takeWhileD)
qed

lemma py_float_of_match:
  assumes "match_decimal s = Some w"
  shows "\<exists>q. py_float w = Inr q"
proof -
  from assms obtain ds fs where w: "w = ds @ CHR ''.'' # fs" and ne: "ds \<noteq> []" "fs \<noteq> []"
    and d: "list_all is_digit ds" "list_all is_digit fs"
    by (rule match_decimal_shape)
  show ?thesis
    unfolding py_float_def w
    using takeWhile_dropWhile_digits [OF d(1) not_digit_dot, of fs] ne d(2)
    by simp
qed

lemma py_index_in_set: "py_index xs i = Inr x \<Longrightarrow> x \<in> set xs"
  by (auto simp: py_index_def split: if_splits)

lemma convert_price_then_cast:
  assumes "convert_price c = Inr c'"
  shows "\<exists>q. cast Float64 c' = Inr (VFloat q)"
proof -
  from assms obtain s w where c': "c' = Str w" and "w \<in> set (re_findall match_decimal s)"
    by (cases c) (auto simp: convert_price_def and_then_Inr_iff dest: py_index_in_set)
  then obtain s' where "match_decimal s' = Some w"
    unfolding re_findall_def by (auto dest: findall_from_matches)
  then obtain q where "py_float w = Inr q"
    using py_float_of_match by blast
  then show ?thesis
    using c' by (simp add: and_then_Inr)
qed

lemma clean_price_float: "clean_price c = Inr v \<Longrightarrow> \<exists>q. v = VFloat q"
  by (cases c) (auto simp: clean_price_def convert_price_def and_then_Inr_iff)

lemma cast_Int64_int: "cast Int64 c = Inr v \<Longrightarrow> \<exists>n. v = VInt n \<and> - (2 ^ 63) \<le> n \<and> n < 2 ^ 63"
  by (cases c) (auto simp: and_then_Inr_iff split: if_splits)

lemma clean_availability_int:
  "clean_availability c = Inr v \<Longrightarrow> \<exists>n. v = VInt n \<and> - (2 ^ 63) \<le> n \<and> n < 2 ^ 63"
  by (auto simp: clean_availability_def and_then_Inr_iff dest: cast_Int64_int)



lemma number_simps:
  "py_float ''51.77'' = Inr (5177 / 100)"
  "py_float ''0.00'' = Inr 0"
  "py_int ''19'' = Inr 19"
  "py_int ''0'' = Inr 0"
  by (simp_all add: py_float_def py_int_def strip_def is_space_def int_digits_def nat_of_digits_def
      is_digit_def and_then_def)

lemma convert_simps:
  "convert_price (Str (CHR 0xA3 # ''51.77'')) = Inr (Str ''51.77'')"
  "convert_price (Str (CHR 0xA3 # ''0.00'')) = Inr (Str ''0.00'')"
  "convert_availability (Str ''In stock (19 available)'') = Inr (Str ''19'')"
  by (simp_all add: convert_price_def convert_availability_def re_findall_def match_decimal_def
      match_integer_def is_digit_def py_index_def and_then_def)

lemma clean_example: "clean_data example_frame = Inr example_clean"
  unfolding example_frame_def example_clean_def clean_data_explicit
  by (simp add: and_then_Inr convert_simps number_simps)

lemma example_frame_columns: "df_columns example_frame = raw_columns"
  by (simp add: example_frame_def df_columns_def raw_columns_def fields'_def)



lemma apply_column_Inr:
  assumes "apply_column f name df = Inr df'"
  obtains col col' where "map_of df name = Some col" and "series_apply f col = Inr col'"
    and "map_of df' = (map_of df)(name \<mapsto> col')"
proof -
  from assms obtain col col' where "df_getitem df name = Inr col" "series_apply f col = Inr col'"
    "df' = df_setitem df name col'"
    unfolding apply_column_def and_then_Inr_iff by auto
  then show ?thesis
    using that [of col col']
    by (simp add: df_getitem_def df_setitem_def AList.update_conv' split: option.splits)
qed

lemma convert_price_no_number:
  "no_number match_decimal c \<Longrightarrow> \<exists>e. convert_price c = Inl e"
  by (cases c) (simp_all add: no_number_def convert_price_def py_index_def and_then_def)

lemma convert_availability_no_number:
  "no_number match_integer c \<Longrightarrow> \<exists>e. convert_availability c = Inl e"
  by (cases c) (simp_all add: no_number_def convert_availability_def py_index_def and_then_def)

text \<open>
  Claim C6: when a cell of a price-like column holds no number for \<^verbatim>\<open>\d+\.\d+\<close>,
  or a cell of the availability column none for \<^verbatim>\<open>\d+\<close>, \<open>clean_data\<close> raises:
  its result is an exception and no frame, so no value stands in for the missing
  number. (The exception is the \<^verbatim>\<open>IndexError\<close> of \<^verbatim>\<open>[0]\<close> for a text without a
  match and the \<^verbatim>\<open>TypeError\<close> of \<^verbatim>\<open>re.findall\<close> for a cell that is no text, unless
  a cell converted before it has raised already.)
\<close>

theorem clean_data_fails_without_number:
  assumes col: "df_getitem df name = Inr col" and cell: "c \<in> set col"
    and bad: "(name \<in> {''Price (excl. tax)'', ''Price (incl. tax)'', ''Tax''}
                \<and> no_number match_decimal c)
      \<or> (name = ''Availability'' \<and> no_number match_integer c)"
  shows "\<exists>e. clean_data df = Inl e"
proof (rule not_Inr_is_Inl)
  fix df'
  show "clean_data df \<noteq> Inr df'"
  proof
    assume "clean_data df = Inr df'"
    then obtain df1 df2 df3 df4 where
      s1: "apply_column convert_availability ''Availability'' df = Inr df1" and
      s2: "apply_column convert_price ''Price (excl. tax)'' df1 = Inr df2" and
      s3: "apply_column convert_price ''Price (incl. tax)'' df2 = Inr df3" and
      s4: "apply_column convert_price ''Tax'' df3 = Inr df4"
      unfolding clean_data_def and_then_Inr_iff by blast
    have m0: "map_of df name = Some col"
      using col by (simp add: df_getitem_def split: option.splits)
    from s1 obtain a a' where a: "map_of df ''Availability'' = Some a"
      "series_apply convert_availability a = Inr a'"
      "map_of df1 = (map_of df)(''Availability'' \<mapsto> a')"
      by (rule apply_column_Inr)
    from s2 obtain p p' where p: "map_of df1 ''Price (excl. tax)'' = Some p"
      "series_apply convert_price p = Inr p'"
      "map_of df2 = (map_of df1)(''Price (excl. tax)'' \<mapsto> p')"
      by (rule apply_column_Inr)
    from s3 obtain q q' where q: "map_of df2 ''Price (incl. tax)'' = Some q"
      "series_apply convert_price q = Inr q'"
      "map_of df3 = (map_of df2)(''Price (incl. tax)'' \<mapsto> q')"
      by (rule apply_column_Inr)
    from s4 obtain t t' where t: "map_of df3 ''Tax'' = Some t"
      "series_apply convert_price t = Inr t'"
      by (rule apply_column_Inr)
    from bad show False
    proof (elim disjE conjE)
      assume n: "name = ''Availability''" and none: "no_number match_integer c"
      from none obtain e where "convert_availability c = Inl e"
        using convert_availability_no_number by blast
      then have "\<exists>e'. series_apply convert_availability col = Inl e'"
        using cell by (rule series_apply_fails [where f = convert_availability, rotated])
      moreover have "a = col" using a(1) m0 n by simp
      ultimately show False using a(2) by simp
    next
      assume n: "name \<in> {''Price (excl. tax)'', ''Price (incl. tax)'', ''Tax''}"
        and none: "no_number match_decimal c"
      from none obtain e where "convert_price c = Inl e"
        using convert_price_no_number by blast
      then have fails: "\<exists>e'. series_apply convert_price col = Inl e'"
        using cell by (rule series_apply_fails [where f = convert_price, rotated])
      from n consider "name = ''Price (excl. tax)''" | "name = ''Price (incl. tax)''"
        | "name = ''Tax''"
        by auto
      then show False
      proof cases
        case 1
        then have "p = col" using p(1) a(3) m0 by simp
        then show False using fails p(2) by simp
      next
        case 2
        then have "q = col" using q(1) p(3) a(3) m0 by simp
        then show False using fails q(2) by simp
      next
        case 3
        then have "t = col" using t(1) q(3) p(3) a(3) m0 by simp
        then show False using fails t(2) by simp
      qed
    qed
  qed
qed

theorem clean_data_fails_without_number_witness:
  "df_getitem tax_free_frame ''Tax'' = Inr [Str ''free'']
   \<and> no_number match_decimal (Str ''free'')
   \<and> (\<exists>e. clean_data tax_free_frame = Inl e)"
proof -
  have col: "df_getitem tax_free_frame ''Tax'' = Inr [Str ''free'']"
    by (simp add: tax_free_frame_def df_getitem_def)
  have no: "no_number match_decimal (Str ''free'')"
    by (simp add: no_number_def re_findall_def match_decimal_def is_digit_def)
  have "\<exists>e. clean_data tax_free_frame = Inl e"
    by (rule clean_data_fails_without_number [OF col, of "Str ''free''"]) (simp_all add: no)
  then show ?thesis
    using col no by simp
qed

text \<open>
  Claim C7: a raw frame has the columns of a raw record and is rectangular. If
  the cleaner accepts it, the frame the driver stamps with the category label has
  exactly the nine columns of the schema and then \<open>category\<close>, it is rectangular
  with as many records as the raw frame, and every record of it holds objects
  for the title, the identifier and the type, three floats that are numbers (no
  \<^verbatim>\<open>NaN\<close>) for the two prices and the tax, two 64-bit integers for availability
  and number of reviews, an object for the description, and the label.
\<close>

theorem clean_record_invariant:
  assumes cols: "df_columns df = raw_columns" and rect: "rectangular df"
    and ok: "clean_data df = Inr df'"
  shows "df_columns (stamp_category df' label) =
           [''title'', ''upc'', ''product_type'', ''price_excl_tax'', ''price_incl_tax'', ''tax'',
            ''availability'', ''number_of_reviews'', ''product_description'', ''category'']
       \<and> rectangular (stamp_category df' label)
       \<and> nrows (stamp_category df' label) = nrows df
       \<and> (\<forall>record \<in> set (df_rows (stamp_category df' label)).
            \<exists>title upc product_type price_excl_tax price_incl_tax tax availability
               number_of_reviews product_description.
              record = [VObj title, VObj upc, VObj product_type, VFloat price_excl_tax,
                 VFloat price_incl_tax, VFloat tax, VInt availability, VInt number_of_reviews,
                 VObj product_description, VObj (Str label)]
              \<and> in_int64 availability \<and> in_int64 number_of_reviews)"
proof -
  from cols obtain c0 c1 c2 c3 c4 c5 c6 c7 c8 where
    df: "df = [(''Title'', c0), (''UPC'', c1), (''Product Type'', c2), (''Price (excl. tax)'', c3),
       (''Price (incl. tax)'', c4), (''Tax'', c5), (''Availability'', c6),
       (''Number of reviews'', c7), (''Product Description'', c8)]"
    by (rule raw_frame_shape)
  from ok [unfolded df] obtain v3 v4 v5 v6 v7 where
    df': "df' = [(''title'', map VObj c0), (''upc'', map VObj c1), (''product_type'', map VObj c2),
       (''price_excl_tax'', v3), (''price_incl_tax'', v4), (''tax'', v5), (''availability'', v6),
       (''number_of_reviews'', v7), (''product_description'', map VObj c8)]"
    and v3: "list_all2 (\<lambda>c v. clean_price c = Inr v) c3 v3"
    and v4: "list_all2 (\<lambda>c v. clean_price c = Inr v) c4 v4"
    and v5: "list_all2 (\<lambda>c v. clean_price c = Inr v) c5 v5"
    and v6: "list_all2 (\<lambda>c v. clean_availability c = Inr v) c6 v6"
    and v7: "list_all2 (\<lambda>c v. cast Int64 c = Inr v) c7 v7"
    by (rule clean_data_success)
  define n where "n = length c0"
  have len: "length c1 = n" "length c2 = n" "length c3 = n" "length c4 = n" "length c5 = n"
    "length c6 = n" "length c7 = n" "length c8 = n"
    using rect by (simp_all add: rectangular_def df nrows_def n_def)
  have lenv: "length v3 = n" "length v4 = n" "length v5 = n" "length v6 = n" "length v7 = n"
    using v3 v4 v5 v6 v7 len by (auto dest: list_all2_lengthD)
  have stamped: "stamp_category df' label =
      [(''title'', map VObj c0), (''upc'', map VObj c1), (''product_type'', map VObj c2),
       (''price_excl_tax'', v3), (''price_incl_tax'', v4), (''tax'', v5), (''availability'', v6),
       (''number_of_reviews'', v7), (''product_description'', map VObj c8),
       (''category'', replicate n (VObj (Str label)))]"
    by (simp add: stamp_category_def df_setitem_def df' nrows_def n_def)
  have floats: "\<exists>q. v ! i = VFloat q"
    if "list_all2 (\<lambda>c v. clean_price c = Inr v) c v" "i < length v" for c v i
    using that by (auto dest!: list_all2_nthD2 clean_price_float)
  have avail: "\<exists>k. v6 ! i = VInt k \<and> in_int64 k" if "i < n" for i
    using v6 that lenv(4) unfolding in_int64_def
    by (auto dest!: list_all2_nthD2 clean_availability_int)
  have reviews: "\<exists>k. v7 ! i = VInt k \<and> in_int64 k" if "i < n" for i
    using v7 that lenv(5) unfolding in_int64_def
    by (auto dest!: list_all2_nthD2 cast_Int64_int)
  have row: "\<exists>title upc product_type price_excl_tax price_incl_tax tax availability
               number_of_reviews product_description.
              [map VObj c0 ! i, map VObj c1 ! i, map VObj c2 ! i, v3 ! i, v4 ! i, v5 ! i, v6 ! i,
               v7 ! i, map VObj c8 ! i, replicate n (VObj (Str label)) ! i] =
              [VObj title, VObj upc, VObj product_type, VFloat price_excl_tax,
                 VFloat price_incl_tax, VFloat tax, VInt availability, VInt number_of_reviews,
                 VObj product_description, VObj (Str label)]
              \<and> in_int64 availability \<and> in_int64 number_of_reviews" if i: "i < n" for i
  proof -
    obtain a b c where "v3 ! i = VFloat a" "v4 ! i = VFloat b" "v5 ! i = VFloat c"
      using floats [OF v3] floats [OF v4] floats [OF v5] lenv i by metis
    moreover obtain d e where "v6 ! i = VInt d" "in_int64 d" "v7 ! i = VInt e" "in_int64 e"
      using avail [OF i] reviews [OF i] by auto
    ultimately show ?thesis
      using i len by (simp add: n_def)
  qed
  have "df_columns (stamp_category df' label) =
           [''title'', ''upc'', ''product_type'', ''price_excl_tax'', ''price_incl_tax'', ''tax'',
            ''availability'', ''number_of_reviews'', ''product_description'', ''category'']"
    by (simp add: stamped df_columns_def)
  moreover have "rectangular (stamp_category df' label)"
    by (simp add: stamped rectangular_def nrows_def len lenv n_def [symmetric])
  moreover have "nrows (stamp_category df' label) = nrows df"
    by (simp add: stamped nrows_def df n_def)
  moreover have "\<forall>record \<in> set (df_rows (stamp_category df' label)).
            \<exists>title upc product_type price_excl_tax price_incl_tax tax availability
               number_of_reviews product_description.
              record = [VObj title, VObj upc, VObj product_type, VFloat price_excl_tax,
                 VFloat price_incl_tax, VFloat tax, VInt availability, VInt number_of_reviews,
                 VObj product_description, VObj (Str label)]
              \<and> in_int64 availability \<and> in_int64 number_of_reviews"
  proof
    fix r
    assume "r \<in> set (df_rows (stamp_category df' label))"
    then obtain i where "i < n" and
      "r = [map VObj c0 ! i, map VObj c1 ! i, map VObj c2 ! i, v3 ! i, v4 ! i, v5 ! i, v6 ! i,
               v7 ! i, map VObj c8 ! i, replicate n (VObj (Str label)) ! i]"
      by (auto simp: df_rows_def stamped nrows_def n_def)
    then show "\<exists>title upc product_type price_excl_tax price_incl_tax tax availability
               number_of_reviews product_description.
              r = [VObj title, VObj upc, VObj product_type, VFloat price_excl_tax,
                 VFloat price_incl_tax, VFloat tax, VInt availability, VInt number_of_reviews,
                 VObj product_description, VObj (Str label)]
              \<and> in_int64 availability \<and> in_int64 number_of_reviews"
      using row [of i] by simp
  qed
  ultimately show ?thesis by blast
qed

lemma stamped_example_rows:
  "df_rows (stamp_category example_clean label) =
     [[VObj (Str ''a-light-in-the-attic''), VObj (Str ''a897fe39b1053632''), VObj (Str ''Books''),
       VFloat (5177 / 100), VFloat (5177 / 100), VFloat 0, VInt 19, VInt 0,
       VObj (Str ''Poems.''), VObj (Str label)]]"
  by (simp add: stamp_category_def df_setitem_def example_clean_def nrows_def df_rows_def)

theorem clean_record_invariant_witness:
  "df_columns example_frame = raw_columns
   \<and> rectangular example_frame
   \<and> clean_data example_frame = Inr example_clean
   \<and> df_columns (stamp_category example_clean ''Science'') =
           [''title'', ''upc'', ''product_type'', ''price_excl_tax'', ''price_incl_tax'', ''tax'',
            ''availability'', ''number_of_reviews'', ''product_description'', ''category'']
   \<and> nrows (stamp_category example_clean ''Science'') = 1
   \<and> df_rows (stamp_category example_clean ''Science'') =
     [[VObj (Str ''a-light-in-the-attic''), VObj (Str ''a897fe39b1053632''), VObj (Str ''Books''),
       VFloat (5177 / 100), VFloat (5177 / 100), VFloat 0, VInt 19, VInt 0,
       VObj (Str ''Poems.''), VObj (Str ''Science'')]]"
proof -
  have rect: "rectangular example_frame"
    by (simp add: rectangular_def example_frame_def nrows_def)
  have n: "nrows example_frame = 1"
    by (simp add: example_frame_def nrows_def)
  note main = clean_record_invariant [OF example_frame_columns rect clean_example, of "''Science''"]
  show ?thesis
    using main example_frame_columns rect clean_example n stamped_example_rows [of "''Science''"]
    by simp
qed

section \<open>Properties of the loader\<close>

lemma count_map_Row: "count_headers (map Row rs) = 0" "count_rows (map Row rs) = length rs"
  by (induction rs) (simp_all add: count_headers_def count_rows_def is_header_def)

lemma count_append:
  "count_headers (xs @ ys) = count_headers xs + count_headers ys"
  "count_rows (xs @ ys) = count_rows xs + count_rows ys"
  by (simp_all add: count_headers_def count_rows_def)

lemma count_Header:
  "count_headers (Header h # xs) = Suc (count_headers xs)"
  "count_rows (Header h # xs) = count_rows xs"
  by (simp_all add: count_headers_def count_rows_def is_header_def)

text \<open>
  Claim C8: in file mode, with no file \<^verbatim>\<open>data.csv\<close> yet, a first load of a frame
  of \<open>N\<close> records creates the file with the header and the \<open>N\<close> rows; a second
  load, of a frame of \<open>M\<close> records, writes its \<open>M\<close> rows after them and no header.
  The file ends with one header and \<open>N + M\<close> rows, and neither load raises.
\<close>

theorem load_data_file_mode_header_once:
  assumes flag: "''--no_db'' \<in> set argv" and absent: "data_csv w = None"
    and first: "load_data argv to_sql w df1 user password host database table = (out1, err1, w1)"
    and second: "load_data argv to_sql w1 df2 user password host database table = (out2, err2, w2)"
  shows "err1 = None \<and> err2 = None
       \<and> data_csv w1 = Some (Header (df_columns df1) # map Row (df_rows df1))
       \<and> data_csv w2 = Some (Header (df_columns df1) # map Row (df_rows df1) @ map Row (df_rows df2))
       \<and> (\<exists>file1 file2. data_csv w1 = Some file1 \<and> data_csv w2 = Some file2
            \<and> count_headers file1 = 1 \<and> count_rows file1 = nrows df1
            \<and> count_headers file2 = 1 \<and> count_rows file2 = nrows df1 + nrows df2)"
proof -
  have 1: "err1 = None" "data_csv w1 = Some (Header (df_columns df1) # map Row (df_rows df1))"
    using first flag absent by (auto simp: load_data_def)
  have 2: "err2 = None"
    "data_csv w2 = Some (Header (df_columns df1) # map Row (df_rows df1) @ map Row (df_rows df2))"
    using second flag 1(2) by (auto simp: load_data_def)
  show ?thesis
    using 1 2 by (simp add: count_Header count_append count_map_Row length_df_rows)
qed

theorem load_data_file_mode_header_once_witness:
  "''--no_db'' \<in> set file_mode_argv \<and> data_csv fresh_world = None
   \<and> (\<exists>out1 w1 out2 w2 file.
         load_data file_mode_argv refusing_db fresh_world (stamp_category example_clean ''Science'')
           ''jacob'' ''password'' ''localhost'' ''book_db'' ''BooksToScrape'' = (out1, None, w1)
       \<and> load_data file_mode_argv refusing_db w1 (stamp_category example_clean ''Poetry'')
           ''jacob'' ''password'' ''localhost'' ''book_db'' ''BooksToScrape'' = (out2, None, w2)
       \<and> data_csv w2 = Some file \<and> count_headers file = 1 \<and> count_rows file = 2)"
proof -
  let ?science = "stamp_category example_clean ''Science''"
  let ?poetry = "stamp_category example_clean ''Poetry''"
  let ?first = "load_data file_mode_argv refusing_db fresh_world ?science
           ''jacob'' ''password'' ''localhost'' ''book_db'' ''BooksToScrape''"
  let ?second = "load_data file_mode_argv refusing_db (snd (snd ?first)) ?poetry
           ''jacob'' ''password'' ''localhost'' ''book_db'' ''BooksToScrape''"
  have flag: "''--no_db'' \<in> set file_mode_argv"
    by (simp add: file_mode_argv_def)
  have absent: "data_csv fresh_world = None"
    by (simp add: fresh_world_def)
  have first: "?first = (fst ?first, fst (snd ?first), snd (snd ?first))"
    and second: "?second = (fst ?second, fst (snd ?second), snd (snd ?second))"
    by simp_all
  note main = load_data_file_mode_header_once [OF flag absent first second]
  have rows: "nrows ?science = 1" "nrows ?poetry = 1"
    by (simp_all add: stamp_category_def df_setitem_def example_clean_def nrows_def)
  from main obtain f where "data_csv (snd (snd ?second)) = Some f"
    "count_headers f = 1" "count_rows f = 2"
    using rows by auto
  moreover have "fst (snd ?first) = None" "fst (snd ?second) = None"
    using main by simp_all
  ultimately show ?thesis
    using flag absent first second by metis
qed

text \<open>
  Claim C10: in file mode what \<open>load_data\<close> does (what it prints, whether it
  raises, the file and the database it leaves) is the same for any two choices
  of user, password, host, database and table.
\<close>

theorem load_data_file_mode_ignores_credentials:
  assumes "''--no_db'' \<in> set argv"
  shows "load_data argv to_sql w df user password host database table =
         load_data argv to_sql w df user' password' host' database' table'"
  using assms by (simp add: load_data_def)

theorem load_data_file_mode_ignores_credentials_witness:
  "''--no_db'' \<in> set file_mode_argv
   \<and> load_data file_mode_argv refusing_db fresh_world example_clean
       ''jacob'' ''password'' ''localhost'' ''book_db'' ''BooksToScrape'' =
     load_data file_mode_argv refusing_db fresh_world example_clean
       ''mallory'' ''guess'' ''203.0.113.7'' ''other_db'' ''OtherTable''"
proof -
  have flag: "''--no_db'' \<in> set file_mode_argv"
    by (simp add: file_mode_argv_def)
  show ?thesis
    using flag load_data_file_mode_ignores_credentials [OF flag] by blast
qed

end
